theory Spec2Isabelle
  imports Main "HOL-Library.Word" "HOL-Library.Char_ord" "HOL-Library.List_Lexorder"
    "HOL-Library.Multiset"
begin

unbundle bit_operations_syntax

section \<open>Go values\<close>

text \<open>
  A Go string is a sequence of bytes: it is modelled as \<open>string\<close>, one \<open>char\<close> per
  byte. A function that can fail returns \<open>error + 'a\<close>; a run-time panic of the Go
  program is an error value too, so that no failure is hidden by totality.
\<close>

datatype url_error =
    InvalidControlCharacter
  | MissingProtocolScheme
  | FirstPathSegmentColon
  | MissingBracket
  | InvalidPort string
  | EscapeError string
  | InvalidHostError string
  | InvalidUserinfo

datatype error =
    TooFewArguments
  | ParseError url_error
  | IndexOutOfRange
  | NilMapAssignment

section \<open>The standard library's \<open>strings\<close> package\<close>

definition HasPrefix :: "string \<Rightarrow> string \<Rightarrow> bool" where
  "HasPrefix s pre = (take (length pre) s = pre)"

definition HasSuffix :: "string \<Rightarrow> string \<Rightarrow> bool" where
  "HasSuffix s suf = (length suf \<le> length s \<and> drop (length s - length suf) s = suf)"

definition Contains :: "string \<Rightarrow> char \<Rightarrow> bool" where
  "Contains s c = (c \<in> set s)"

text \<open>\<open>TrimLeft\<close> and \<open>TrimRight\<close> remove every leading (trailing) byte of the cutset.\<close>

definition TrimLeft :: "string \<Rightarrow> string \<Rightarrow> string" where
  "TrimLeft s cutset = dropWhile (\<lambda>c. c \<in> set cutset) s"

definition TrimRight :: "string \<Rightarrow> string \<Rightarrow> string" where
  "TrimRight s cutset = rev (dropWhile (\<lambda>c. c \<in> set cutset) (rev s))"

text \<open>\<open>Index s sep\<close>: the position of the first occurrence of \<open>sep\<close> in \<open>s\<close>.\<close>

fun Index :: "string \<Rightarrow> string \<Rightarrow> nat option" where
  "Index [] sep = (if sep = [] then Some 0 else None)"
| "Index (c # cs) sep =
     (if HasPrefix (c # cs) sep then Some 0 else map_option Suc (Index cs sep))"

text \<open>
  \<open>Split s sep\<close> for a non-empty separator cuts \<open>s\<close> at every occurrence of \<open>sep\<close>,
  found from the left and not overlapping. (With an empty separator Go explodes the
  string into its characters; the program never calls it so.)
\<close>

function Split :: "string \<Rightarrow> string \<Rightarrow> string list" where
  "Split s sep =
     (if sep = [] then map (\<lambda>c. [c]) s
      else case Index s sep of
             None \<Rightarrow> [s]
           | Some i \<Rightarrow> take i s # Split (drop (i + length sep) s) sep)"
  by pat_completeness auto
termination
proof (relation "measure (\<lambda>(s, sep). length s)")
  show "wf (measure (\<lambda>(s, sep). length s))" by simp
next
  fix s sep :: string and i :: nat
  assume sep: "sep \<noteq> []" and idx: "Index s sep = Some i"
  have "s \<noteq> []" using sep idx by (cases s) auto
  then show "((drop (i + length sep) s, sep), (s, sep)) \<in> measure (\<lambda>(s, sep). length s)"
    using sep by (cases sep) auto
qed

declare Split.simps [simp del]

fun Join :: "string list \<Rightarrow> string \<Rightarrow> string" where
  "Join [] sep = []"
| "Join [x] sep = x"
| "Join (x # y # ys) sep = x @ sep @ Join (y # ys) sep"

text \<open>\<open>Cut s c\<close>: the text before and after the first \<open>c\<close>, and whether there is one.\<close>

definition Cut :: "string \<Rightarrow> char \<Rightarrow> string \<times> string \<times> bool" where
  "Cut s c =
     (let before = takeWhile (\<lambda>x. x \<noteq> c) s; rest = dropWhile (\<lambda>x. x \<noteq> c) s
      in if rest = [] then (s, [], False) else (before, tl rest, True))"

definition LastIndexByte :: "string \<Rightarrow> char \<Rightarrow> nat option" where
  "LastIndexByte s c =
     (if c \<in> set s then Some (length s - 1 - length (takeWhile (\<lambda>x. x \<noteq> c) (rev s)))
      else None)"

definition lower_byte :: "char \<Rightarrow> char" where
  "lower_byte c =
     (case map_of (zip ''ABCDEFGHIJKLMNOPQRSTUVWXYZ'' ''abcdefghijklmnopqrstuvwxyz'') c of
        Some l \<Rightarrow> l
      | None \<Rightarrow> c)"

definition upper_byte :: "char \<Rightarrow> char" where
  "upper_byte c =
     (case map_of (zip ''abcdefghijklmnopqrstuvwxyz'' ''ABCDEFGHIJKLMNOPQRSTUVWXYZ'') c of
        Some u \<Rightarrow> u
      | None \<Rightarrow> c)"

text \<open>
  \<open>ToLower\<close> and \<open>ToUpper\<close> map the ASCII letters. Go maps the letters outside ASCII
  as well: two of them have an upper case inside ASCII, U+017F (bytes C5 BF, upper case
  \<open>S\<close>) and U+0131 (bytes C4 B1, upper case \<open>I\<close>), and \<open>ToUpper\<close> maps them so; no
  rune outside ASCII has a lower case among the bytes of \<open>x-gd-\<close> or of a URL scheme.
  The bytes of every other rune are kept, where Go gives another rune outside ASCII:
  the program only compares the results with ASCII words, which no such rune is part
  of.
\<close>

definition ToLower :: "string \<Rightarrow> string" where
  "ToLower s = map lower_byte s"

fun ToUpper :: "string \<Rightarrow> string" where
  "ToUpper [] = []"
| "ToUpper [c] = [upper_byte c]"
| "ToUpper (c # d # cs) =
     (if c = CHR 0xC5 \<and> d = CHR 0xBF then CHR ''S'' # ToUpper cs
      else if c = CHR 0xC4 \<and> d = CHR 0xB1 then CHR ''I'' # ToUpper cs
      else upper_byte c # ToUpper (d # cs))"

definition isdigit :: "char \<Rightarrow> bool" where
  "isdigit c = (c \<in> set ''0123456789'')"

definition isalpha :: "char \<Rightarrow> bool" where
  "isalpha c = (c \<in> set ''abcdefghijklmnopqrstuvwxyzABCDEFGHIJKLMNOPQRSTUVWXYZ'')"

section \<open>The regular expressions of \<open>cmd\<close>\<close>

text \<open>
  Each pattern of the program is written out as the predicate it decides. A negated
  class such as \<open>[^=]\<close> matches every byte but the ones listed, the newline included;
  \<open>.\<close> matches every byte but the newline; \<open>$\<close> is the end of the text.

  \<open>reQueryItem\<close> is \<^verbatim>\<open>^([^=]+)=($|[^=](.*)$)\<close>: a non-empty key without \<open>=\<close>, one
  \<open>=\<close>, and then either nothing or a byte other than \<open>=\<close> followed by any text
  without a newline.
\<close>

definition reQueryItem :: "string \<Rightarrow> bool" where
  "reQueryItem item =
     (let key = takeWhile (\<lambda>c. c \<noteq> CHR ''='') item;
          rest = dropWhile (\<lambda>c. c \<noteq> CHR ''='') item
      in key \<noteq> [] \<and>
         (case rest of
            [] \<Rightarrow> False
          | eq # v \<Rightarrow>
              (case v of
                 [] \<Rightarrow> True
               | c # t \<Rightarrow> c \<noteq> CHR ''='' \<and> CHR 0x0A \<notin> set t)))"

text \<open>\<open>reURLFormat\<close> is \<^verbatim>\<open>^([^=]+)==(.*)$\<close>.\<close>

definition reURLFormat :: "string \<Rightarrow> bool" where
  "reURLFormat item =
     (let key = takeWhile (\<lambda>c. c \<noteq> CHR ''='') item;
          rest = dropWhile (\<lambda>c. c \<noteq> CHR ''='') item
      in key \<noteq> [] \<and> HasPrefix rest ''=='' \<and> CHR 0x0A \<notin> set (drop 2 rest))"

text \<open>\<open>reURLOnlyPort\<close> is \<^verbatim>\<open>^:\d+\<close>; \<open>reURLHasScheme\<close> is \<^verbatim>\<open>^https?://\<close>.\<close>

definition reURLOnlyPort :: "string \<Rightarrow> bool" where
  "reURLOnlyPort s = (case s of c # d # _ \<Rightarrow> c = CHR '':'' \<and> isdigit d | _ \<Rightarrow> False)"

definition reURLHasScheme :: "string \<Rightarrow> bool" where
  "reURLHasScheme s = (HasPrefix s ''http://'' \<or> HasPrefix s ''https://'')"

text \<open>
  \<open>reToken\<close> is \<^verbatim>\<open><([^<>]+)>\<close>. \<open>ReplaceAllToken f s\<close> is
  \<open>reToken.ReplaceAllStringFunc(s, f)\<close>: the matches are found from the left and do
  not overlap; each is replaced by \<open>f\<close> of the matched text, the rest is copied.
\<close>

definition is_name_byte :: "char \<Rightarrow> bool" where
  "is_name_byte c = (c \<noteq> CHR ''<'' \<and> c \<noteq> CHR ''>'')"

function ReplaceAllToken :: "(string \<Rightarrow> string) \<Rightarrow> string \<Rightarrow> string" where
  "ReplaceAllToken f [] = []"
| "ReplaceAllToken f (c # cs) =
     (if c = CHR ''<'' \<and> takeWhile is_name_byte cs \<noteq> [] \<and>
         HasPrefix (dropWhile is_name_byte cs) ''>''
      then f (c # takeWhile is_name_byte cs @ ''>'') @
           ReplaceAllToken f (tl (dropWhile is_name_byte cs))
      else c # ReplaceAllToken f cs)"
  by pat_completeness auto
termination
proof (relation "measure (\<lambda>(f, s). length s)")
  show "wf (measure (\<lambda>(f, s). length s))" by simp
next
  fix f :: "string \<Rightarrow> string" and c :: char and cs :: string
  have "length (tl (dropWhile is_name_byte cs)) \<le> length cs"
    using length_dropWhile_le [of is_name_byte cs] by simp
  then show "((f, tl (dropWhile is_name_byte cs)), (f, c # cs)) \<in> measure (\<lambda>(f, s). length s)"
    by simp
next
  fix f :: "string \<Rightarrow> string" and c :: char and cs :: string
  show "((f, cs), (f, c # cs)) \<in> measure (\<lambda>(f, s). length s)" by simp
qed

section \<open>Template substitution and URL shorthands\<close>

definition tokenLeft :: string where "tokenLeft = ''<''"
definition tokenRight :: string where "tokenRight = ''>''"
definition queryItemFlag :: string where "queryItemFlag = ''=''"
definition formatItemFlag :: string where "formatItemFlag = ''==''"
definition defaultScheme :: string where "defaultScheme = ''http''"
definition defaultHost :: string where "defaultHost = ''localhost''"

text \<open>
  \<open>substitute\<close>: every token is replaced by the mapping's value for its name, or by
  the empty string when the mapping has none.
\<close>

definition substitute :: "string \<Rightarrow> (string \<rightharpoonup> string) \<Rightarrow> string" where
  "substitute s mapping =
     ReplaceAllToken
       (\<lambda>m. case mapping (TrimRight (TrimLeft m tokenLeft) tokenRight) of
               Some v \<Rightarrow> v
             | None \<Rightarrow> [])
       s"

text \<open>
  The loop of \<open>fillURL\<close> that collects the \<open>key==value\<close> items: the item is split at
  every \<open>==\<close> and the first two pieces are the key and the value. Indexing a slice
  out of range panics in Go.
\<close>

fun formatMapping :: "(string \<rightharpoonup> string) \<Rightarrow> string list \<Rightarrow> error + (string \<rightharpoonup> string)" where
  "formatMapping m [] = Inr m"
| "formatMapping m (item # items) =
     (if reURLFormat item
      then (case Split item formatItemFlag of
              a0 # a1 # _ \<Rightarrow> formatMapping (m(a0 \<mapsto> a1)) items
            | _ \<Rightarrow> Inl IndexOutOfRange)
      else formatMapping m items)"

definition expandHost :: "string \<Rightarrow> string" where
  "expandHost uri = (if HasPrefix uri '':'' then defaultHost @ TrimLeft uri '':'' else uri)"

definition expandPort :: "string \<Rightarrow> string" where
  "expandPort uri = (if reURLOnlyPort uri then defaultHost @ uri else uri)"

definition expandScheme :: "string \<Rightarrow> string" where
  "expandScheme uri = (if \<not> reURLHasScheme uri then defaultScheme @ ''://'' @ uri else uri)"

definition fillURL :: "string \<Rightarrow> string list \<Rightarrow> error + string" where
  "fillURL uri requestItems =
     (let uri1 = expandHost uri;
          uri2 = expandPort uri1;
          uri3 = expandScheme uri2
      in case formatMapping Map.empty requestItems of
           Inl e \<Rightarrow> Inl e
         | Inr mapping \<Rightarrow> Inr (substitute uri3 mapping))"

section \<open>The standard library's \<open>net/url\<close> package\<close>

text \<open>
  \<open>url.Parse\<close>, \<open>URL.Query\<close>, \<open>Values.Add\<close> and \<open>Values.Encode\<close> belong to Go's
  standard library. They are written out here after the library's own algorithm,
  since what the program computes goes through them.
\<close>

datatype encoding =
    encodePath
  | encodePathSegment
  | encodeHost
  | encodeZone
  | encodeUserPassword
  | encodeQueryComponent
  | encodeFragment

definition shouldEscape :: "char \<Rightarrow> encoding \<Rightarrow> bool" where
  "shouldEscape c mode =
     (if isalpha c \<or> isdigit c then False
      else if (mode = encodeHost \<or> mode = encodeZone) \<and>
              (c \<in> set ''!$&()*+,;=:[]<>'' \<or> c = CHR 0x27 \<or> c = CHR 0x22) then False
      else if c \<in> set ''-_.~'' then False
      else if c \<in> set ''$&+,/:;=?@'' then
        (case mode of
           encodePath \<Rightarrow> c = CHR ''?''
         | encodePathSegment \<Rightarrow> c \<in> set ''/;,?''
         | encodeUserPassword \<Rightarrow> c \<in> set ''@/?:''
         | encodeQueryComponent \<Rightarrow> True
         | encodeFragment \<Rightarrow> False
         | _ \<Rightarrow> True)
      else if mode = encodeFragment \<and> c \<in> set ''!()*'' then False
      else True)"

definition upperhex :: string where
  "upperhex = ''0123456789ABCDEF''"

definition escape_byte :: "encoding \<Rightarrow> char \<Rightarrow> string" where
  "escape_byte mode c =
     (if c = CHR '' '' \<and> mode = encodeQueryComponent then ''+''
      else if shouldEscape c mode
      then [CHR ''%'', upperhex ! (of_char c div 16), upperhex ! (of_char c mod 16)]
      else [c])"

definition escape :: "string \<Rightarrow> encoding \<Rightarrow> string" where
  "escape s mode = concat (map (escape_byte mode) s)"

definition QueryEscape :: "string \<Rightarrow> string" where
  "QueryEscape s = escape s encodeQueryComponent"

definition ishex :: "char \<Rightarrow> bool" where
  "ishex c = (c \<in> set ''0123456789abcdefABCDEF'')"

definition unhex :: "char \<Rightarrow> nat" where
  "unhex c =
     (case map_of (zip ''0123456789abcdefABCDEF''
                       [0, 1, 2, 3, 4, 5, 6, 7, 8, 9, 10, 11, 12, 13, 14, 15, 10, 11, 12, 13, 14, 15]) c of
        Some n \<Rightarrow> n
      | None \<Rightarrow> 0)"

text \<open>
  \<open>unescape\<close>: \<open>%XX\<close> becomes the byte \<open>XX\<close>, and \<open>+\<close> a space in a query
  component. A \<open>%\<close> that is not followed by two hexadecimal digits is an error, and
  so is, in a host, an escaped ASCII byte or a byte that a host cannot hold.
\<close>

fun unescape :: "string \<Rightarrow> encoding \<Rightarrow> url_error + string" where
  "unescape [] mode = Inr []"
| "unescape (c # cs) mode =
     (if c = CHR ''%'' then
        (if length cs < 2 \<or> \<not> ishex (cs ! 0) \<or> \<not> ishex (cs ! 1)
         then Inl (EscapeError (take 3 (c # cs)))
         else if mode = encodeHost \<and> unhex (cs ! 0) < 8 \<and> take 3 (c # cs) \<noteq> ''%25''
         then Inl (EscapeError (take 3 (c # cs)))
         else if mode = encodeZone \<and> take 3 (c # cs) \<noteq> ''%25'' \<and>
                 unhex (cs ! 0) * 16 + unhex (cs ! 1) \<noteq> 32 \<and>
                 shouldEscape (char_of (unhex (cs ! 0) * 16 + unhex (cs ! 1))) encodeHost
         then Inl (EscapeError (take 3 (c # cs)))
         else (case unescape (drop 2 cs) mode of
                 Inl e \<Rightarrow> Inl e
               | Inr t \<Rightarrow> Inr (char_of (unhex (cs ! 0) * 16 + unhex (cs ! 1)) # t)))
      else if c = CHR ''+'' then
        (case unescape cs mode of
           Inl e \<Rightarrow> Inl e
         | Inr t \<Rightarrow> Inr ((if mode = encodeQueryComponent then CHR '' '' else CHR ''+'') # t))
      else if (mode = encodeHost \<or> mode = encodeZone) \<and> (of_char c :: nat) < 128 \<and>
              shouldEscape c encodeHost
      then Inl (InvalidHostError [c])
      else (case unescape cs mode of
              Inl e \<Rightarrow> Inl e
            | Inr t \<Rightarrow> Inr (c # t)))"

definition QueryUnescape :: "string \<Rightarrow> url_error + string" where
  "QueryUnescape s = unescape s encodeQueryComponent"

subsection \<open>Values: the query multi-map\<close>

text \<open>
  \<open>url.Values\<close> is \<open>map[string][]string\<close>. It is modelled as an association list
  with one entry per key; the order of the entries stands for the order in which a
  \<open>range\<close> loop visits the keys, which Go leaves open.
\<close>

type_synonym Values = "(string \<times> string list) list"

text \<open>\<open>v[key]\<close>: the values of a key, the nil slice when the key is absent.\<close>

definition values_of :: "Values \<Rightarrow> string \<Rightarrow> string list" where
  "values_of v key = (case map_of v key of Some vs \<Rightarrow> vs | None \<Rightarrow> [])"

text \<open>\<open>Add\<close>: \<open>v[key] = append(v[key], value)\<close>.\<close>

fun Add :: "Values \<Rightarrow> string \<Rightarrow> string \<Rightarrow> Values" where
  "Add [] key val = [(key, [val])]"
| "Add ((k, vs) # v) key val =
     (if k = key then (k, vs @ [val]) # v else (k, vs) # Add v key val)"

text \<open>
  \<open>Encode\<close>: the keys are sorted (\<open>sort.Strings\<close>: bytewise, lexicographic), and every
  value of a key is written as \<open>key=value\<close>, both escaped, the pairs joined by \<open>&\<close>.
\<close>

definition Encode :: "Values \<Rightarrow> string" where
  "Encode v =
     Join (concat (map (\<lambda>k. map (\<lambda>val. QueryEscape k @ ''='' @ QueryEscape val) (values_of v k))
                       (sort (map fst v))))
          ''&''"

text \<open>
  \<open>parseQuery\<close>: the query is cut at every \<open>&\<close>; a piece with a \<open>;\<close>, an empty piece
  and a piece whose key or value does not unescape are skipped (\<open>URL.Query\<close> drops the
  error that \<open>ParseQuery\<close> reports for them).
\<close>

function parseQuery :: "Values \<Rightarrow> string \<Rightarrow> Values" where
  "parseQuery m query =
     (if query = [] then m
      else
        (if Contains (fst (Cut query CHR ''&'')) CHR '';'' \<or> fst (Cut query CHR ''&'') = []
         then parseQuery m (fst (snd (Cut query CHR ''&'')))
         else
           (case QueryUnescape (fst (Cut (fst (Cut query CHR ''&'')) CHR ''='')) of
              Inl e \<Rightarrow> parseQuery m (fst (snd (Cut query CHR ''&'')))
            | Inr key \<Rightarrow>
                (case QueryUnescape (fst (snd (Cut (fst (Cut query CHR ''&'')) CHR ''=''))) of
                   Inl e \<Rightarrow> parseQuery m (fst (snd (Cut query CHR ''&'')))
                 | Inr val \<Rightarrow> parseQuery (Add m key val) (fst (snd (Cut query CHR ''&'')))))))"
  by pat_completeness auto
termination
proof -
  have shorter: "length (fst (snd (Cut q c))) < length q" if "q \<noteq> []" for q c
  proof -
    have "length (dropWhile (\<lambda>x. x \<noteq> c) q) \<le> length q"
      by (rule length_dropWhile_le)
    then show ?thesis
      using that by (cases "dropWhile (\<lambda>x. x \<noteq> c) q") (auto simp: Cut_def Let_def)
  qed
  show ?thesis
    by (relation "measure (\<lambda>(m, query). length query)") (auto simp: shorter)
qed

declare parseQuery.simps [simp del]

subsection \<open>URL and Parse\<close>

record Userinfo =
  username :: string
  password :: string
  passwordSet :: bool

record URL =
  Scheme :: string
  Opaque :: string
  User :: "Userinfo option"
  Host :: string
  Path :: string
  RawPath :: string
  ForceQuery :: bool
  RawQuery :: string
  Fragment :: string
  RawFragment :: string

definition emptyURL :: URL where
  "emptyURL = \<lparr>Scheme = [], Opaque = [], User = None, Host = [], Path = [], RawPath = [],
               ForceQuery = False, RawQuery = [], Fragment = [], RawFragment = []\<rparr>"

definition Query :: "URL \<Rightarrow> Values" where
  "Query u = parseQuery [] (RawQuery u)"

definition stringContainsCTLByte :: "string \<Rightarrow> bool" where
  "stringContainsCTLByte s = list_ex (\<lambda>c. (of_char c :: nat) < 32 \<or> (of_char c :: nat) = 127) s"

text \<open>
  \<open>getScheme\<close>: the letters, digits, \<open>+\<close>, \<open>-\<close> and \<open>.\<close> before the first \<open>:\<close> are
  the scheme, when the first byte is a letter. \<open>pre\<close> is the text read so far.
\<close>

fun getScheme_from :: "string \<Rightarrow> string \<Rightarrow> string \<Rightarrow> url_error + (string \<times> string)" where
  "getScheme_from rawURL pre [] = Inr ([], rawURL)"
| "getScheme_from rawURL pre (c # cs) =
     (if isalpha c then getScheme_from rawURL (pre @ [c]) cs
      else if isdigit c \<or> c \<in> set ''+-.'' then
        (if pre = [] then Inr ([], rawURL) else getScheme_from rawURL (pre @ [c]) cs)
      else if c = CHR '':'' then
        (if pre = [] then Inl MissingProtocolScheme else Inr (pre, cs))
      else Inr ([], rawURL))"

definition getScheme :: "string \<Rightarrow> url_error + (string \<times> string)" where
  "getScheme rawURL = getScheme_from rawURL [] rawURL"

definition validOptionalPort :: "string \<Rightarrow> bool" where
  "validOptionalPort port = (case port of [] \<Rightarrow> True | c # ds \<Rightarrow> c = CHR '':'' \<and> list_all isdigit ds)"

definition parseHost :: "string \<Rightarrow> url_error + string" where
  "parseHost host =
     (if HasPrefix host ''['' then
        (case LastIndexByte host CHR '']'' of
           None \<Rightarrow> Inl MissingBracket
         | Some i \<Rightarrow>
             if \<not> validOptionalPort (drop (i + 1) host) then Inl (InvalidPort (drop (i + 1) host))
             else
               (case Index (take i host) ''%25'' of
                  None \<Rightarrow> unescape host encodeHost
                | Some zone \<Rightarrow>
                    (case unescape (take zone host) encodeHost of
                       Inl e \<Rightarrow> Inl e
                     | Inr host1 \<Rightarrow>
                         (case unescape (drop zone (take i host)) encodeZone of
                            Inl e \<Rightarrow> Inl e
                          | Inr host2 \<Rightarrow>
                              (case unescape (drop i host) encodeHost of
                                 Inl e \<Rightarrow> Inl e
                               | Inr host3 \<Rightarrow> Inr (host1 @ host2 @ host3))))))
      else
        (case LastIndexByte host CHR '':'' of
           None \<Rightarrow> unescape host encodeHost
         | Some i \<Rightarrow>
             if \<not> validOptionalPort (drop i host) then Inl (InvalidPort (drop i host))
             else unescape host encodeHost))"

definition validUserinfo :: "string \<Rightarrow> bool" where
  "validUserinfo s =
     list_all (\<lambda>r. isalpha r \<or> isdigit r \<or> r \<in> set ''-._:~!$&()*+,;=%@'' \<or> r = CHR 0x27) s"

definition parseUserinfo :: "string \<Rightarrow> url_error + Userinfo" where
  "parseUserinfo userinfo =
     (if \<not> validUserinfo userinfo then Inl InvalidUserinfo
      else if \<not> Contains userinfo CHR '':'' then
        (case unescape userinfo encodeUserPassword of
           Inl e \<Rightarrow> Inl e
         | Inr name \<Rightarrow> Inr \<lparr>username = name, password = [], passwordSet = False\<rparr>)
      else
        (case unescape (fst (Cut userinfo CHR '':'')) encodeUserPassword of
           Inl e \<Rightarrow> Inl e
         | Inr name \<Rightarrow>
             (case unescape (fst (snd (Cut userinfo CHR '':''))) encodeUserPassword of
                Inl e \<Rightarrow> Inl e
              | Inr pw \<Rightarrow> Inr \<lparr>username = name, password = pw, passwordSet = True\<rparr>)))"

definition parseAuthority :: "string \<Rightarrow> url_error + (Userinfo option \<times> string)" where
  "parseAuthority authority =
     (case LastIndexByte authority CHR ''@'' of
        None \<Rightarrow>
          (case parseHost authority of Inl e \<Rightarrow> Inl e | Inr host \<Rightarrow> Inr (None, host))
      | Some i \<Rightarrow>
          (case parseHost (drop (i + 1) authority) of
             Inl e \<Rightarrow> Inl e
           | Inr host \<Rightarrow>
               (case parseUserinfo (take i authority) of
                  Inl e \<Rightarrow> Inl e
                | Inr user \<Rightarrow> Inr (Some user, host))))"

definition setPath :: "URL \<Rightarrow> string \<Rightarrow> url_error + URL" where
  "setPath u p =
     (case unescape p encodePath of
        Inl e \<Rightarrow> Inl e
      | Inr path \<Rightarrow>
          Inr (u\<lparr>Path := path, RawPath := (if p = escape path encodePath then [] else p)\<rparr>))"

definition setFragment :: "URL \<Rightarrow> string \<Rightarrow> url_error + URL" where
  "setFragment u f =
     (case unescape f encodeFragment of
        Inl e \<Rightarrow> Inl e
      | Inr frag \<Rightarrow>
          Inr (u\<lparr>Fragment := frag,
                 RawFragment := (if f = escape frag encodeFragment then [] else f)\<rparr>))"

text \<open>\<open>parse\<close>: the URL without its fragment.\<close>

definition parse_rest :: "URL \<Rightarrow> string \<Rightarrow> url_error + URL" where
  "parse_rest url rest =
     (if \<not> HasPrefix rest ''/'' \<and> Scheme url \<noteq> [] then Inr (url\<lparr>Opaque := rest\<rparr>)
      else if \<not> HasPrefix rest ''/'' \<and> Contains (fst (Cut rest CHR ''/'')) CHR '':''
      then Inl FirstPathSegmentColon
      else if (Scheme url \<noteq> [] \<or> \<not> HasPrefix rest ''///'') \<and> HasPrefix rest ''//'' then
        (case parseAuthority (fst (Cut (drop 2 rest) CHR ''/'')) of
           Inl e \<Rightarrow> Inl e
         | Inr (user, host) \<Rightarrow>
             setPath (url\<lparr>User := user, Host := host\<rparr>)
                     (dropWhile (\<lambda>c. c \<noteq> CHR ''/'') (drop 2 rest)))
      else setPath url rest)"

definition parse :: "string \<Rightarrow> url_error + URL" where
  "parse rawURL =
     (if stringContainsCTLByte rawURL then Inl InvalidControlCharacter
      else if rawURL = ''*'' then Inr (emptyURL\<lparr>Path := ''*''\<rparr>)
      else
        (case getScheme rawURL of
           Inl e \<Rightarrow> Inl e
         | Inr (scheme, rest) \<Rightarrow>
             if HasSuffix rest ''?'' \<and> count_list rest CHR ''?'' = 1
             then parse_rest (emptyURL\<lparr>Scheme := ToLower scheme, ForceQuery := True\<rparr>) (butlast rest)
             else parse_rest (emptyURL\<lparr>Scheme := ToLower scheme,
                                       RawQuery := fst (snd (Cut rest CHR ''?''))\<rparr>)
                             (fst (Cut rest CHR ''?''))))"

definition Parse :: "string \<Rightarrow> url_error + URL" where
  "Parse rawURL =
     (case parse (fst (Cut rawURL CHR ''#'')) of
        Inl e \<Rightarrow> Inl e
      | Inr url \<Rightarrow>
          if fst (snd (Cut rawURL CHR ''#'')) = [] then Inr url
          else setFragment url (fst (snd (Cut rawURL CHR ''#''))))"

text \<open>\<open>URL.Hostname\<close> and \<open>URL.Port\<close>: the host without a valid port, and the port.\<close>

definition Hostname :: "URL \<Rightarrow> string" where
  "Hostname u =
     (let host = (case LastIndexByte (Host u) CHR '':'' of
                    None \<Rightarrow> Host u
                  | Some colon \<Rightarrow>
                      if validOptionalPort (drop colon (Host u)) then take colon (Host u)
                      else Host u)
      in if HasPrefix host ''['' \<and> HasSuffix host '']'' then butlast (tl host) else host)"

definition Port :: "URL \<Rightarrow> string" where
  "Port u =
     (case LastIndexByte (Host u) CHR '':'' of
        None \<Rightarrow> []
      | Some colon \<Rightarrow>
          if validOptionalPort (drop colon (Host u)) then drop (colon + 1) (Host u) else [])"

section \<open>Building the URL and reading the positional arguments\<close>

text \<open>
  The loop of \<open>buildURL\<close> over the request items: an item that \<open>reQueryItem\<close> matches
  is split at every \<open>=\<close>, and its first two pieces are added as key and value.
\<close>

fun addQueryItems :: "Values \<Rightarrow> string list \<Rightarrow> error + Values" where
  "addQueryItems queryItems [] = Inr queryItems"
| "addQueryItems queryItems (item # items) =
     (if reQueryItem item
      then (case Split item queryItemFlag of
              a0 # a1 # _ \<Rightarrow> addQueryItems (Add queryItems a0 a1) items
            | _ \<Rightarrow> Inl IndexOutOfRange)
      else addQueryItems queryItems items)"

definition buildURL :: "string \<Rightarrow> string list \<Rightarrow> error + URL" where
  "buildURL uri requestItems =
     (case fillURL uri requestItems of
        Inl e \<Rightarrow> Inl e
      | Inr uri' \<Rightarrow>
          (case Parse uri' of
             Inl e \<Rightarrow> Inl (ParseError e)
           | Inr u \<Rightarrow>
               (case addQueryItems (Query u) requestItems of
                  Inl e \<Rightarrow> Inl e
                | Inr queryItems \<Rightarrow> Inr (u\<lparr>RawQuery := Encode queryItems\<rparr>))))"

record PositionalArgument =
  httpMethod :: string
  uri :: URL
  requestItems :: "string list"

definition MethodGet :: string where "MethodGet = ''GET''"

definition isValidMethod :: "string \<Rightarrow> bool" where
  "isValidMethod method =
     (ToUpper method \<in> set [''GET'', ''HEAD'', ''POST'', ''PUT'', ''PATCH'', ''DELETE'',
                               ''OPTIONS'', ''CONNECT'', ''TRACE''])"

definition parsePositionalArguments :: "string list \<Rightarrow> error + PositionalArgument" where
  "parsePositionalArguments args =
     (case args of
        [] \<Rightarrow> Inl TooFewArguments
      | [a0] \<Rightarrow>
          (case buildURL a0 [] of
             Inl e \<Rightarrow> Inl e
           | Inr u \<Rightarrow> Inr \<lparr>httpMethod = MethodGet, uri = u, requestItems = []\<rparr>)
      | a0 # a1 # items \<Rightarrow>
          if isValidMethod (ToUpper a0) then
            (case buildURL a1 items of
               Inl e \<Rightarrow> Inl e
             | Inr u \<Rightarrow> Inr \<lparr>httpMethod = ToUpper a0, uri = u, requestItems = items\<rparr>)
          else
            (case buildURL a0 (a1 # items) of
               Inl e \<Rightarrow> Inl e
             | Inr u \<Rightarrow> Inr \<lparr>httpMethod = MethodGet, uri = u, requestItems = a1 # items\<rparr>))"

section \<open>The standard library's hashing, encoding and time formatting\<close>

text \<open>
  \<open>[]byte\<close> is a list of 8-bit words. \<open>crypto/sha1\<close>, \<open>crypto/hmac\<close> and
  \<open>encoding/base64\<close> are written out after the standards they implement (FIPS 180-4,
  RFC 2104, RFC 4648).
\<close>

type_synonym byte = "8 word"

definition bytes_of :: "string \<Rightarrow> byte list" where
  "bytes_of s = map (\<lambda>c. of_nat (of_char c)) s"

definition be32 :: "byte list \<Rightarrow> 32 word" where
  "be32 bs = foldl (\<lambda>w b. push_bit 8 w OR ucast b) 0 bs"

definition be_bytes :: "nat \<Rightarrow> nat \<Rightarrow> byte list" where
  "be_bytes n v = map (\<lambda>i. of_nat (v div 256 ^ (n - 1 - i))) [0..<n]"

definition sha1_pad :: "byte list \<Rightarrow> byte list" where
  "sha1_pad msg =
     msg @ [0x80] @ replicate ((119 - length msg mod 64) mod 64) 0 @ be_bytes 8 (8 * length msg)"

definition chunks :: "nat \<Rightarrow> 'a list \<Rightarrow> 'a list list" where
  "chunks n xs = map (\<lambda>i. take n (drop (n * i) xs)) [0..<length xs div n]"

fun sha1_expand :: "nat \<Rightarrow> 32 word list \<Rightarrow> 32 word list" where
  "sha1_expand 0 w = w"
| "sha1_expand (Suc n) w =
     sha1_expand n
       (w @ [word_rotl 1 (w ! (length w - 3) XOR w ! (length w - 8) XOR
                          w ! (length w - 14) XOR w ! (length w - 16))])"

definition sha1_f :: "nat \<Rightarrow> 32 word \<Rightarrow> 32 word \<Rightarrow> 32 word \<Rightarrow> 32 word" where
  "sha1_f t b c d =
     (if t < 20 then (b AND c) OR (NOT b AND d)
      else if t < 40 then b XOR c XOR d
      else if t < 60 then (b AND c) OR (b AND d) OR (c AND d)
      else b XOR c XOR d)"

definition sha1_k :: "nat \<Rightarrow> 32 word" where
  "sha1_k t =
     (if t < 20 then 0x5A827999
      else if t < 40 then 0x6ED9EBA1
      else if t < 60 then 0x8F1BBCDC
      else 0xCA62C1D6)"

type_synonym sha1_state = "32 word \<times> 32 word \<times> 32 word \<times> 32 word \<times> 32 word"

definition sha1_round :: "32 word list \<Rightarrow> nat \<Rightarrow> sha1_state \<Rightarrow> sha1_state" where
  "sha1_round w t st =
     (case st of (a, b, c, d, e) \<Rightarrow>
        (word_rotl 5 a + sha1_f t b c d + e + sha1_k t + w ! t, a, word_rotl 30 b, c, d))"

definition sha1_block :: "sha1_state \<Rightarrow> byte list \<Rightarrow> sha1_state" where
  "sha1_block h block =
     (case (h, fold (sha1_round (sha1_expand 64 (map be32 (chunks 4 block)))) [0..<80] h) of
        ((h0, h1, h2, h3, h4), (a, b, c, d, e)) \<Rightarrow> (h0 + a, h1 + b, h2 + c, h3 + d, h4 + e))"

definition sha1_init :: sha1_state where
  "sha1_init = (0x67452301, 0xEFCDAB89, 0x98BADCFE, 0x10325476, 0xC3D2E1F0)"

definition sha1 :: "byte list \<Rightarrow> byte list" where
  "sha1 msg =
     (case foldl sha1_block sha1_init (chunks 64 (sha1_pad msg)) of
        (h0, h1, h2, h3, h4) \<Rightarrow> concat (map (\<lambda>h. be_bytes 4 (unat h)) [h0, h1, h2, h3, h4]))"

text \<open>
  \<open>hmac.New(hashFunc, key)\<close>, \<open>Write(msg)\<close>, \<open>Sum(nil)\<close>, for a hash with blocks of
  64 bytes: a key longer than a block is hashed first.
\<close>

definition hmac :: "(byte list \<Rightarrow> byte list) \<Rightarrow> byte list \<Rightarrow> byte list \<Rightarrow> byte list" where
  "hmac hashFunc key msg =
     (let key' = (if length key > 64 then hashFunc key else key);
          padded = key' @ replicate (64 - length key') 0
      in hashFunc (map (\<lambda>b. b XOR 0x5c) padded @ hashFunc (map (\<lambda>b. b XOR 0x36) padded @ msg)))"

definition encodeStd :: string where
  "encodeStd = ''ABCDEFGHIJKLMNOPQRSTUVWXYZabcdefghijklmnopqrstuvwxyz0123456789+/''"

fun EncodeToString :: "byte list \<Rightarrow> string" where
  "EncodeToString [] = []"
| "EncodeToString [a] =
     [encodeStd ! (unat a div 4), encodeStd ! (unat a mod 4 * 16), CHR ''='', CHR ''='']"
| "EncodeToString [a, b] =
     [encodeStd ! (unat a div 4), encodeStd ! (unat a mod 4 * 16 + unat b div 16),
      encodeStd ! (unat b mod 16 * 4), CHR ''='']"
| "EncodeToString (a # b # c # rest) =
     [encodeStd ! (unat a div 4), encodeStd ! (unat a mod 4 * 16 + unat b div 16),
      encodeStd ! (unat b mod 16 * 4 + unat c div 64), encodeStd ! (unat c mod 64)]
     @ EncodeToString rest"

text \<open>
  \<open>time.Now().UTC().Format(http.TimeFormat)\<close>: the clock is an input of the model, the
  seconds since 1 January 1970 UTC, and the layout is
  \<^verbatim>\<open>Mon, 02 Jan 2006 15:04:05 GMT\<close>. The date is the Gregorian one of that day.
\<close>

definition digits :: "nat \<Rightarrow> nat \<Rightarrow> string" where
  "digits n v = map (\<lambda>i. ''0123456789'' ! (v div 10 ^ (n - 1 - i) mod 10)) [0..<n]"

fun decimal_fuel :: "nat \<Rightarrow> nat \<Rightarrow> string" where
  "decimal_fuel 0 v = []"
| "decimal_fuel (Suc n) v =
     (if v < 10 then [''0123456789'' ! v]
      else decimal_fuel n (v div 10) @ [''0123456789'' ! (v mod 10)])"

definition year_digits :: "nat \<Rightarrow> string" where
  "year_digits y = (if y < 10000 then digits 4 y else decimal_fuel (Suc y) y)"

definition civil_from_days :: "nat \<Rightarrow> nat \<times> nat \<times> nat" where
  "civil_from_days days =
     (let z = days + 719468;
          era = z div 146097;
          doe = z mod 146097;
          yoe = (doe - doe div 1460 + doe div 36524 - doe div 146096) div 365;
          doy = doe - (365 * yoe + yoe div 4 - yoe div 100);
          mp = (5 * doy + 2) div 153;
          d = doy - (153 * mp + 2) div 5 + 1;
          m = (if mp < 10 then mp + 3 else mp - 9);
          y = yoe + era * 400 + (if m \<le> 2 then 1 else 0)
      in (y, m, d))"

definition TimeFormat :: "nat \<Rightarrow> string" where
  "TimeFormat now =
     (case civil_from_days (now div 86400) of
        (y, m, d) \<Rightarrow>
          [''Sun'', ''Mon'', ''Tue'', ''Wed'', ''Thu'', ''Fri'', ''Sat''] ! ((now div 86400 + 4) mod 7)
          @ '', '' @ digits 2 d @ '' ''
          @ [''Jan'', ''Feb'', ''Mar'', ''Apr'', ''May'', ''Jun'',
             ''Jul'', ''Aug'', ''Sep'', ''Oct'', ''Nov'', ''Dec''] ! (m - 1)
          @ '' '' @ year_digits y @ '' ''
          @ digits 2 (now mod 86400 div 3600) @ '':''
          @ digits 2 (now mod 3600 div 60) @ '':''
          @ digits 2 (now mod 60) @ '' GMT'')"

section \<open>The standard library's \<open>http.Header\<close> and \<open>http.Request\<close>\<close>

text \<open>
  \<open>http.Header\<close> is \<open>map[string][]string\<close>, modelled like \<open>Values\<close>. \<open>Get\<close> and
  \<open>Set\<close> work on the canonical form of the key: the first letter and every letter
  after a \<open>-\<close> in upper case, the others in lower case; a key with a byte that a
  header name cannot hold is left as it is.
\<close>

type_synonym Header = "(string \<times> string list) list"

definition validHeaderFieldByte :: "char \<Rightarrow> bool" where
  "validHeaderFieldByte c =
     (isalpha c \<or> isdigit c \<or> c \<in> set ''!#$%&*+-.^_`|~'' \<or> c = CHR 0x27)"

fun canonicalCase :: "bool \<Rightarrow> string \<Rightarrow> string" where
  "canonicalCase upper [] = []"
| "canonicalCase upper (c # cs) =
     (if upper then upper_byte c else lower_byte c) # canonicalCase (c = CHR ''-'') cs"

definition CanonicalMIMEHeaderKey :: "string \<Rightarrow> string" where
  "CanonicalMIMEHeaderKey s = (if list_all validHeaderFieldByte s then canonicalCase True s else s)"

definition Get :: "Header \<Rightarrow> string \<Rightarrow> string" where
  "Get h key =
     (case map_of h (CanonicalMIMEHeaderKey key) of
        None \<Rightarrow> []
      | Some vs \<Rightarrow> (case vs of [] \<Rightarrow> [] | v # _ \<Rightarrow> v))"

fun assign :: "(string \<times> 'a) list \<Rightarrow> string \<Rightarrow> 'a \<Rightarrow> (string \<times> 'a) list" where
  "assign [] key val = [(key, val)]"
| "assign ((k, v) # m) key val = (if k = key then (k, val) # m else (k, v) # assign m key val)"

definition Set :: "Header \<Rightarrow> string \<Rightarrow> string \<Rightarrow> Header" where
  "Set h key val = assign h (CanonicalMIMEHeaderKey key) [val]"

record Request =
  reqMethod :: string
  reqURL :: URL
  reqHeader :: Header

section \<open>Package \<open>gdauth\<close>: the canonical string and the signature\<close>

definition internalHeaderPrefix :: string where "internalHeaderPrefix = ''x-gd-''"
definition internalAuthPrefix :: string where "internalAuthPrefix = ''GeneDock''"
definition HMACSHA1V1 :: string where "HMACSHA1V1 = ''hmac-sha1-v1''"

record Signature =
  Method :: string
  AccessKeyID :: string
  AccessKeySecret :: string

text \<open>
  \<open>getInternalHeaders\<close>. Its result \<open>internalHeaders\<close> is a named result of type
  \<open>map[string]string\<close> that the function never makes: it is the nil map (\<open>None\<close>) when
  the loop starts, and Go panics on an assignment to an entry of a nil map. The loop
  is written for any state of \<open>internalHeaders\<close>, an allocated map being \<open>Some\<close> of
  its entries.
\<close>

fun internalHeaders_loop ::
  "(string \<times> string) list option \<Rightarrow> Header \<Rightarrow> error + (string \<times> string) list option" where
  "internalHeaders_loop internalHeaders [] = Inr internalHeaders"
| "internalHeaders_loop internalHeaders ((key, vals) # headers) =
     (if HasPrefix (ToLower key) internalHeaderPrefix
      then (case internalHeaders of
              None \<Rightarrow> Inl NilMapAssignment
            | Some m \<Rightarrow> internalHeaders_loop (Some (assign m key (Join vals '',''))) headers)
      else internalHeaders_loop internalHeaders headers)"

definition getInternalHeaders :: "Header \<Rightarrow> error + (string \<times> string) list option" where
  "getInternalHeaders headers = internalHeaders_loop None headers"

text \<open>\<open>sortMapByKey\<close>: ranging over the nil map visits nothing.\<close>

definition sortMapByKey :: "(string \<times> string) list option \<Rightarrow> (string \<times> string) list" where
  "sortMapByKey m =
     (case m of
        None \<Rightarrow> []
      | Some entries \<Rightarrow>
          map (\<lambda>key. (key, case map_of entries key of Some v \<Rightarrow> v | None \<Rightarrow> []))
              (sort (map fst entries)))"

definition convertHeadersToString :: "Header \<Rightarrow> error + string" where
  "convertHeadersToString reqHeaders =
     (case getInternalHeaders reqHeaders of
        Inl e \<Rightarrow> Inl e
      | Inr headers \<Rightarrow>
          Inr (Join (map (\<lambda>item. fst item @ '':'' @ snd item) (sortMapByKey headers)) [CHR 0x0A]))"

text \<open>
  \<open>convertURLToString\<close>: the query is copied value by value into \<open>sortedQuery\<close> and
  encoded. The copy visits the keys in the order of the entries of \<open>u.Query()\<close>.
\<close>

definition copyValues :: "Values \<Rightarrow> Values" where
  "copyValues q = fold (\<lambda>(key, vals) sortedQuery. fold (\<lambda>val acc. Add acc key val) vals sortedQuery) q []"

definition convertURLToString :: "URL \<Rightarrow> string" where
  "convertURLToString u =
     (if length (copyValues (Query u)) > 0
      then Path u @ ''?'' @ Encode (copyValues (Query u))
      else Path u)"

definition newHMACDigest :: "Signature \<Rightarrow> string \<Rightarrow> byte list" where
  "newHMACDigest sign msg =
     hmac (if Method sign = HMACSHA1V1 then sha1 else sha1)
          (bytes_of (AccessKeySecret sign)) (bytes_of msg)"

text \<open>The message that \<open>sign\<close> joins and signs: the canonical string.\<close>

definition canonicalString ::
  "string \<Rightarrow> string \<Rightarrow> string \<Rightarrow> string \<Rightarrow> string \<Rightarrow> string \<Rightarrow> string" where
  "canonicalString method contentType contentMD5 resource headersStr date =
     Join (if length headersStr > 0
           then [method, contentMD5, contentType, date, headersStr, resource]
           else [method, contentMD5, contentType, date, resource])
          [CHR 0x0A]"

definition sign ::
  "Signature \<Rightarrow> string \<Rightarrow> string \<Rightarrow> string \<Rightarrow> string \<Rightarrow> string \<Rightarrow> string \<Rightarrow> string" where
  "sign sig method contentType contentMD5 resource headersStr date =
     EncodeToString
       (newHMACDigest sig (canonicalString method contentType contentMD5 resource headersStr date))"

definition setAuthHeader :: "Signature \<Rightarrow> Request \<Rightarrow> string \<Rightarrow> Request" where
  "setAuthHeader sig req signStr =
     req\<lparr>reqHeader :=
           Set (reqHeader req) ''Authorization''
               (internalAuthPrefix @ '' '' @ AccessKeyID sig @ '':'' @ signStr)\<rparr>"

text \<open>\<open>SignReq\<close>; \<open>now\<close> is what \<open>time.Now()\<close> returns.\<close>

definition SignReq :: "Signature \<Rightarrow> nat \<Rightarrow> Request \<Rightarrow> error + Request" where
  "SignReq sig now req =
     (let contentType = Get (reqHeader req) ''Content-Type'';
          contentMD5 = Get (reqHeader req) ''Content-MD5'';
          resource = convertURLToString (reqURL req)
      in case convertHeadersToString (reqHeader req) of
           Inl e \<Rightarrow> Inl e
         | Inr headersStr \<Rightarrow>
             (let date = TimeFormat now;
                  s = sign sig (reqMethod req) contentType contentMD5 resource headersStr date
              in Inr (setAuthHeader sig (req\<lparr>reqHeader := Set (reqHeader req) ''Date'' date\<rparr>) s)))"

section \<open>Properties of the URL normalizer\<close>

lemma HasPrefix_Nil [simp]: "HasPrefix s []"
  by (simp add: HasPrefix_def)

lemma HasPrefix_Cons: "HasPrefix (c # cs) (d # ds) = (c = d \<and> HasPrefix cs ds)"
  by (auto simp: HasPrefix_def)

lemma HasPrefix_Nil_left: "HasPrefix [] p = (p = [])"
  by (auto simp: HasPrefix_def)

lemma dropWhile_until:
  "dropWhile (\<lambda>c. c \<noteq> d) s = [] \<or> (\<exists>r. dropWhile (\<lambda>c. c \<noteq> d) s = d # r)"
  by (induction s) auto

lemma split_at_first:
  assumes "dropWhile (\<lambda>c. c \<noteq> d) s = d # r"
  shows "s = takeWhile (\<lambda>c. c \<noteq> d) s @ d # r"
  using takeWhile_dropWhile_id [of "\<lambda>c. c \<noteq> d" s] assms by simp

lemma takeWhile_no_byte: "d \<notin> set (takeWhile (\<lambda>c. c \<noteq> d) s)"
  by (auto dest: set_takeWhileD)

lemma takeWhile_key: "d \<notin> set k \<Longrightarrow> takeWhile (\<lambda>c. c \<noteq> d) (k @ d # r) = k"
  by (induction k) auto

lemma dropWhile_key: "d \<notin> set k \<Longrightarrow> dropWhile (\<lambda>c. c \<noteq> d) (k @ d # r) = d # r"
  by (induction k) auto

lemma Index_byte_None: "c \<notin> set s \<Longrightarrow> Index s (c # ds) = None"
  by (induction s) (auto simp: HasPrefix_Cons)

lemma Index_at_key:
  "d \<notin> set k \<Longrightarrow> HasPrefix r ds \<Longrightarrow> Index (k @ d # r) (d # ds) = Some (length k)"
  by (induction k) (auto simp: HasPrefix_Cons)

lemma Split_no_sep: "Index s sep = None \<Longrightarrow> sep \<noteq> [] \<Longrightarrow> Split s sep = [s]"
  by (subst Split.simps) simp

lemma Split_at_key:
  assumes "d \<notin> set k" and "HasPrefix r ds"
  shows "Split (k @ d # r) (d # ds) = k # Split (drop (length ds) r) (d # ds)"
proof -
  have "Index (k @ d # r) (d # ds) = Some (length k)"
    using assms by (rule Index_at_key)
  then show ?thesis
    by (subst Split.simps) simp
qed

lemma Split_byte_head:
  "\<exists>rest. Split v [d] = takeWhile (\<lambda>c. c \<noteq> d) v # rest"
proof -
  consider "dropWhile (\<lambda>c. c \<noteq> d) v = []" | r where "dropWhile (\<lambda>c. c \<noteq> d) v = d # r"
    using dropWhile_until [of d v] by blast
  then show ?thesis
  proof cases
    case 1
    then have all: "\<forall>x\<in>set v. x \<noteq> d" by (simp add: dropWhile_eq_Nil_conv)
    have tw: "takeWhile (\<lambda>c. c \<noteq> d) v = v" using all by (simp add: takeWhile_eq_all_conv)
    have "d \<notin> set v" using all by blast
    then have sp: "Split v [d] = [v]" by (simp add: Split_no_sep Index_byte_None)
    show ?thesis unfolding sp tw by blast
  next
    case 2
    then have v: "v = takeWhile (\<lambda>c. c \<noteq> d) v @ d # r" by (rule split_at_first)
    have "Split (takeWhile (\<lambda>c. c \<noteq> d) v @ d # r) [d] =
          takeWhile (\<lambda>c. c \<noteq> d) v # Split (drop (length ([]::string)) r) [d]"
      by (rule Split_at_key) (simp_all add: takeWhile_no_byte)
    with v show ?thesis by metis
  qed
qed

text \<open>What the two item patterns say about the shape of an item.\<close>

lemma reQueryItem_shape:
  "reQueryItem item =
     (\<exists>k v. item = k @ CHR ''='' # v \<and> k \<noteq> [] \<and> CHR ''='' \<notin> set k \<and>
            (v = [] \<or> (hd v \<noteq> CHR ''='' \<and> CHR 0x0A \<notin> set (tl v))))"
proof
  assume m: "reQueryItem item"
  let ?k = "takeWhile (\<lambda>c. c \<noteq> CHR ''='') item"
  consider "dropWhile (\<lambda>c. c \<noteq> CHR ''='') item = []"
    | r where "dropWhile (\<lambda>c. c \<noteq> CHR ''='') item = CHR ''='' # r"
    using dropWhile_until [of "CHR ''=''" item] by blast
  then show "\<exists>k v. item = k @ CHR ''='' # v \<and> k \<noteq> [] \<and> CHR ''='' \<notin> set k \<and>
            (v = [] \<or> (hd v \<noteq> CHR ''='' \<and> CHR 0x0A \<notin> set (tl v)))"
  proof cases
    case 1
    with m show ?thesis by (simp add: reQueryItem_def)
  next
    case 2
    then have "item = ?k @ CHR ''='' # r" by (rule split_at_first)
    moreover have "?k \<noteq> []" using m by (simp add: reQueryItem_def Let_def)
    moreover have "CHR ''='' \<notin> set ?k" by (rule takeWhile_no_byte)
    moreover have "r = [] \<or> (hd r \<noteq> CHR ''='' \<and> CHR 0x0A \<notin> set (tl r))"
      using m 2 by (cases r) (simp_all add: reQueryItem_def Let_def)
    ultimately show ?thesis by blast
  qed
next
  assume "\<exists>k v. item = k @ CHR ''='' # v \<and> k \<noteq> [] \<and> CHR ''='' \<notin> set k \<and>
            (v = [] \<or> (hd v \<noteq> CHR ''='' \<and> CHR 0x0A \<notin> set (tl v)))"
  then obtain k v where "item = k @ CHR ''='' # v" "k \<noteq> []" "CHR ''='' \<notin> set k"
    "v = [] \<or> (hd v \<noteq> CHR ''='' \<and> CHR 0x0A \<notin> set (tl v))" by blast
  then show "reQueryItem item"
    by (cases v) (simp_all add: reQueryItem_def Let_def takeWhile_key dropWhile_key)
qed

lemma reURLFormat_shape:
  "reURLFormat item =
     (\<exists>k v. item = k @ ''=='' @ v \<and> k \<noteq> [] \<and> CHR ''='' \<notin> set k \<and> CHR 0x0A \<notin> set v)"
proof
  assume m: "reURLFormat item"
  let ?k = "takeWhile (\<lambda>c. c \<noteq> CHR ''='') item"
  let ?r = "dropWhile (\<lambda>c. c \<noteq> CHR ''='') item"
  from m have p: "HasPrefix ?r ''==''" and k: "?k \<noteq> []" and n: "CHR 0x0A \<notin> set (drop 2 ?r)"
    by (simp_all add: reURLFormat_def Let_def)
  from p have "?r = ''=='' @ drop 2 ?r"
    by (cases ?r; cases "tl ?r") (auto simp: HasPrefix_def)
  then have "item = ?k @ ''=='' @ drop 2 ?r"
    using takeWhile_dropWhile_id [of "\<lambda>c. c \<noteq> CHR ''=''" item] by simp
  with k n takeWhile_no_byte [of "CHR ''=''" item]
  show "\<exists>k v. item = k @ ''=='' @ v \<and> k \<noteq> [] \<and> CHR ''='' \<notin> set k \<and> CHR 0x0A \<notin> set v"
    by blast
next
  assume "\<exists>k v. item = k @ ''=='' @ v \<and> k \<noteq> [] \<and> CHR ''='' \<notin> set k \<and> CHR 0x0A \<notin> set v"
  then obtain k v where "item = k @ CHR ''='' # CHR ''='' # v" "k \<noteq> []" "CHR ''='' \<notin> set k"
    "CHR 0x0A \<notin> set v" by auto
  then show "reURLFormat item"
    by (simp add: reURLFormat_def Let_def takeWhile_key dropWhile_key HasPrefix_def)
qed

lemma addQueryItems_step:
  assumes "reQueryItem item"
  shows "addQueryItems q (item # items) =
         addQueryItems (Add q (takeWhile (\<lambda>c. c \<noteq> CHR ''='') item)
                              (takeWhile (\<lambda>c. c \<noteq> CHR ''='') (tl (dropWhile (\<lambda>c. c \<noteq> CHR ''='') item))))
                       items"
proof -
  from assms obtain k v where item: "item = k @ CHR ''='' # v" and k: "CHR ''='' \<notin> set k"
    unfolding reQueryItem_shape by blast
  have "Split item queryItemFlag = k # Split (drop (length ([]::string)) v) ''=''"
    unfolding item queryItemFlag_def using k by (intro Split_at_key) simp_all
  moreover obtain rest where "Split v ''='' = takeWhile (\<lambda>c. c \<noteq> CHR ''='') v # rest"
    using Split_byte_head [of v "CHR ''=''"] by blast
  ultimately have "Split item queryItemFlag = k # takeWhile (\<lambda>c. c \<noteq> CHR ''='') v # rest"
    by simp
  moreover have "takeWhile (\<lambda>c. c \<noteq> CHR ''='') item = k"
    unfolding item using k by (rule takeWhile_key)
  moreover have "tl (dropWhile (\<lambda>c. c \<noteq> CHR ''='') item) = v"
    unfolding item using k by (simp add: dropWhile_key)
  ultimately show ?thesis using assms by simp
qed

lemma addQueryItems_total: "\<exists>q'. addQueryItems q items = Inr q'"
proof (induction items arbitrary: q)
  case Nil
  show ?case by simp
next
  case (Cons item items)
  show ?case
  proof (cases "reQueryItem item")
    case True
    then show ?thesis using Cons.IH by (simp only: addQueryItems_step)
  next
    case False
    then show ?thesis using Cons.IH by simp
  qed
qed

text \<open>
  Claim C10. A request item \<open>key=value\<close> that the query-item pattern accepts and whose
  value holds a further \<open>=\<close> is merged under its key with only the part of the value
  before that \<open>=\<close>: the item is split at every \<open>=\<close> and the second piece is kept.
\<close>

theorem query_value_cut_at_equals:
  assumes "CHR ''='' \<notin> set key"
      and "reQueryItem (key @ ''='' @ val)"
      and "CHR ''='' \<in> set val"
  shows "addQueryItems queryItems ((key @ ''='' @ val) # items) =
           addQueryItems (Add queryItems key (takeWhile (\<lambda>c. c \<noteq> CHR ''='') val)) items
         \<and> takeWhile (\<lambda>c. c \<noteq> CHR ''='') val \<noteq> val"
proof
  have "takeWhile (\<lambda>c. c \<noteq> CHR ''='') (key @ ''='' @ val) = key"
    using assms(1) by (simp add: takeWhile_key)
  moreover have "tl (dropWhile (\<lambda>c. c \<noteq> CHR ''='') (key @ ''='' @ val)) = val"
    using assms(1) by (simp add: dropWhile_key)
  ultimately show "addQueryItems queryItems ((key @ ''='' @ val) # items) =
           addQueryItems (Add queryItems key (takeWhile (\<lambda>c. c \<noteq> CHR ''='') val)) items"
    using addQueryItems_step [OF assms(2), of queryItems items] by simp
next
  show "takeWhile (\<lambda>c. c \<noteq> CHR ''='') val \<noteq> val"
    using assms(3) by (auto simp: takeWhile_eq_all_conv)
qed

theorem query_value_cut_witness:
  "reQueryItem ''a=b=c'' \<and> addQueryItems [] [''a=b=c''] = Inr [(''a'', [''b''])]
   \<and> (\<exists>u. buildURL ''example.com'' [''a=b=c''] = Inr u \<and> RawQuery u = ''a=b'')"
proof -
  have h1: "CHR ''='' \<notin> set ''a''" by simp
  have h2: "reQueryItem (''a'' @ ''='' @ ''b=c'')" by code_simp
  have h3: "CHR ''='' \<in> set ''b=c''" by simp
  have "buildURL ''example.com'' [''a=b=c''] = Inr (emptyURL\<lparr>Scheme := ''http'', Host := ''example.com'', RawQuery := ''a=b''\<rparr>)"
    by code_simp
  then have "\<exists>u. buildURL ''example.com'' [''a=b=c''] = Inr u \<and> RawQuery u = ''a=b''"
    by simp
  then show ?thesis
    using query_value_cut_at_equals [OF h1 h2 h3, of "[]" "[]"] h2 by simp
qed

lemma values_of_Add_same: "values_of (Add q key val) key = values_of q key @ [val]"
  by (induction q) (auto simp: values_of_def)

lemma values_of_Add_other: "k \<noteq> key \<Longrightarrow> values_of (Add q key val) k = values_of q k"
  by (induction q) (auto simp: values_of_def)

text \<open>
  Claim C7. The query merge accumulates: \<open>example.com\<close> with the items
  \<open>search=httpie\<close> and \<open>search=cli\<close> yields the query \<open>search=httpie&search=cli\<close>,
  which holds both values for \<open>search\<close>; in general \<open>Add\<close> appends the value to the
  values the key already has.
\<close>

theorem query_merge_accumulates:
  "buildURL ''example.com'' [''search=httpie'', ''search=cli''] =
     Inr (emptyURL\<lparr>Scheme := ''http'', Host := ''example.com'',
                    RawQuery := ''search=httpie&search=cli''\<rparr>)
   \<and> values_of (Query (emptyURL\<lparr>RawQuery := ''search=httpie&search=cli''\<rparr>)) ''search'' =
       [''httpie'', ''cli'']
   \<and> (\<forall>q key val. values_of (Add q key val) key = values_of q key @ [val])"
proof (intro conjI allI)
  show "buildURL ''example.com'' [''search=httpie'', ''search=cli''] =
     Inr (emptyURL\<lparr>Scheme := ''http'', Host := ''example.com'',
                    RawQuery := ''search=httpie&search=cli''\<rparr>)"
    by code_simp
  show "values_of (Query (emptyURL\<lparr>RawQuery := ''search=httpie&search=cli''\<rparr>)) ''search'' =
       [''httpie'', ''cli'']"
    by code_simp
  show "values_of (Add q key val) key = values_of q key @ [val]" for q key val
    by (rule values_of_Add_same)
qed

lemma expandPort_dead: "expandPort (expandHost s) = expandHost s"
proof (cases "HasPrefix s '':''")
  case True
  then show ?thesis
    by (simp add: expandPort_def expandHost_def reURLOnlyPort_def defaultHost_def)
next
  case False
  then have "\<not> reURLOnlyPort s"
    by (auto simp: reURLOnlyPort_def HasPrefix_def split: list.splits)
  with False show ?thesis by (simp add: expandPort_def expandHost_def)
qed

text \<open>
  Claim C2. The shorthand \<open>:3000/foo\<close> with no request items: the leading colon is
  trimmed before the port pattern is tried, so the URL that is built has the host
  \<open>localhost3000\<close> and no port, where the program's usage text promises
  \<open>localhost:3000\<close>.
\<close>

theorem port_shorthand_loses_colon:
  "buildURL '':3000/foo'' [] =
     Inr (emptyURL\<lparr>Scheme := ''http'', Host := ''localhost3000'', Path := ''/foo''\<rparr>)
   \<and> Hostname (emptyURL\<lparr>Scheme := ''http'', Host := ''localhost3000'', Path := ''/foo''\<rparr>) = ''localhost3000''
   \<and> Port (emptyURL\<lparr>Scheme := ''http'', Host := ''localhost3000'', Path := ''/foo''\<rparr>) = []"
  by code_simp

end
